theory Spec2Isabelle
  imports Main
begin

section \<open>JavaScript values, objects and errors\<close>

text \<open>
  The values that end up in response bodies. Numbers are modelled as integers: every
  number the modelled code handles is a status code, a balance, an amount or a cost.
\<close>

datatype js_value =
    JUndefined
  | JNull
  | JBool bool
  | JNum int
  | JStr string
  | JObj "(string \<times> js_value) list"

text \<open>
  An object literal is the list of its own properties in insertion order. The assignment
  \<^verbatim>\<open>out[key] = v\<close> overwrites an existing property in place and appends a new one.
\<close>

type_synonym js_object = "(string \<times> js_value) list"

fun obj_set :: "js_object \<Rightarrow> string \<Rightarrow> js_value \<Rightarrow> js_object" where
  "obj_set [] k v = [(k, v)]"
| "obj_set ((k', v') # ps) k v =
     (if k' = k then (k, v) # ps else (k', v') # obj_set ps k v)"

text \<open>
  Copying the own properties of \<open>src\<close> into \<open>out\<close>, one assignment at a time: the
  loop \<^verbatim>\<open>for (var key in src) if (src.hasOwnProperty(key)) out[key] = src[key]\<close>,
  and also the object spread \<^verbatim>\<open>{ ...out, ...src }\<close>.
\<close>

fun obj_assign :: "js_object \<Rightarrow> js_object \<Rightarrow> js_object" where
  "obj_assign out [] = out"
| "obj_assign out ((k, v) # src) = obj_assign (obj_set out k v) src"

text \<open>
  The exceptions the JavaScript runtime itself raises in the modelled code: a
  ReferenceError with the name of the identifier that could not be resolved, and a
  TypeError with its message, for a call of a value that is not a function.
\<close>

datatype js_exception =
    ReferenceError string
  | TypeError string

text \<open>
  Error objects as the handlers receive them. \<^verbatim>\<open>errors.KristError\<close> (errors/errors.js)
  sets \<^verbatim>\<open>message\<close> from its argument, \<^verbatim>\<open>errorString\<close>, \<^verbatim>\<open>statusCode\<close> and
  \<^verbatim>\<open>info\<close>; the error kinds derived from it override these fields, so the fields are
  arbitrary here. \<open>None\<close> stands for \<^verbatim>\<open>undefined\<close>. Any other error object is an
  \<open>UncaughtError\<close>: it fails \<^verbatim>\<open>instanceof errors.KristError\<close>, and only its
  \<^verbatim>\<open>statusCode\<close> and \<^verbatim>\<open>stack\<close> are ever read.
\<close>

datatype js_error =
    KristError (message: "string option") (errorString: string)
               (statusCode: "nat option") (info: "js_object option")
  | UncaughtError (statusCode: "nat option") (stack: string)

text \<open>\<^verbatim>\<open>new errors.KristError(message)\<close>, as the constructor in errors/errors.js builds it.\<close>

definition KristError_new :: "string option \<Rightarrow> js_error" where
  "KristError_new msg = KristError msg ''unknown_error'' (Some 500) (Some [])"

text \<open>Truthiness of a string that may be undefined: the empty string is falsy.\<close>

fun truthy_str :: "string option \<Rightarrow> bool" where
  "truthy_str None = False"
| "truthy_str (Some s) = (s \<noteq> [])"

section \<open>utils.js\<close>

text \<open>
  \<^verbatim>\<open>Utils.errorToJSON\<close>. In the branch for a truthy \<^verbatim>\<open>error.message\<close> the source
  reads the identifier \<^verbatim>\<open>message\<close>, which is declared nowhere (not a parameter, not a
  local, not a module variable): evaluating it raises a ReferenceError, and the function
  is left before anything is returned. The two \<^verbatim>\<open>console.log\<close> calls of the other
  branch write to the server's log only and are left out.
\<close>

definition errorToJSON :: "js_error \<Rightarrow> js_exception + js_object" where
  "errorToJSON error =
     (case error of
        KristError msg kind sc nfo \<Rightarrow>
          (let out = [(''ok'', JBool False), (''error'', JStr kind)] in
           if truthy_str msg then Inl (ReferenceError ''message'')
           else (case nfo of
                   None \<Rightarrow> Inr out
                 | Some props \<Rightarrow> Inr (obj_assign out props)))
      | UncaughtError sc st \<Rightarrow>
          Inr [(''ok'', JBool False), (''error'', JStr ''server_error'')])"

text \<open>
  The request and response objects of the HTTP framework, reduced to what the handlers
  touch: the \<^verbatim>\<open>cc\<close> query parameter and the \<^verbatim>\<open>privatekey\<close> body parameter (absent
  is \<open>None\<close>), the status code set on the response and the JSON body sent, if any.
\<close>

record request =
  query_cc :: "string option"
  body_privatekey :: "string option"

record response =
  res_status :: nat
  res_json :: "js_object option"

text \<open>\<^verbatim>\<open>error.statusCode || 500\<close>: undefined and 0 are falsy.\<close>

definition statusCode_or_500 :: "js_error \<Rightarrow> nat" where
  "statusCode_or_500 error =
     (case statusCode error of None \<Rightarrow> 500 | Some c \<Rightarrow> if c = 0 then 500 else c)"

text \<open>
  \<^verbatim>\<open>Utils.sendErrorToRes\<close>. \<^verbatim>\<open>res.status(errorCode)\<close> is evaluated before the argument
  of \<^verbatim>\<open>.json(...)\<close>, so when \<open>errorToJSON\<close> raises, the status has been set and no body
  is sent. The first component of the result is the exception that escapes, if any.
\<close>

definition sendErrorToRes ::
  "request \<Rightarrow> response \<Rightarrow> js_error \<Rightarrow> js_exception option \<times> response" where
  "sendErrorToRes req res error =
     (let errorCode = statusCode_or_500 error;
          errorCode = (if query_cc req \<noteq> Some ''undefined'' then 200 else errorCode);
          res1 = res\<lparr>res_status := errorCode\<rparr>
      in case errorToJSON error of
           Inl ex \<Rightarrow> (Some ex, res1)
         | Inr out \<Rightarrow> (None, res1\<lparr>res_json := Some out\<rparr>))"


section \<open>The persistence collaborator\<close>

text \<open>
  The tables behind \<^verbatim>\<open>schemas.address\<close>, \<^verbatim>\<open>schemas.transaction\<close> and
  \<^verbatim>\<open>schemas.name\<close>, each a list of rows in insertion order with an auto-increment
  primary key. Times are clock readings (\<^verbatim>\<open>new Date()\<close>), \<open>None\<close> is null.
\<close>

record address_row =
  addr_id :: nat
  address :: string
  firstseen :: nat
  balance :: int
  totalin :: int
  totalout :: int

record transaction_row =
  tx_id :: nat
  tx_to :: string
  tx_from :: string
  tx_value :: int
  tx_name :: "string option"
  tx_time :: nat
  tx_op :: "string option"

record name_row =
  nm_id :: nat
  nm_name :: string
  nm_owner :: string
  nm_original_owner :: string
  nm_registered :: nat
  nm_updated :: nat
  nm_transferred :: "nat option"
  nm_a :: js_value
  nm_unpaid :: int

text \<open>
  The state the ledger code reads and writes: the three tables, and the effects handed to
  collaborators that are not part of the modelled files, recorded in call order: the
  transactions passed to \<^verbatim>\<open>webhooks.callTransactionWebhooks\<close>, the events passed to
  \<^verbatim>\<open>websockets.broadcastEvent\<close>, and the purchases counter.
\<close>

record server =
  addresses :: "address_row list"
  transactions :: "transaction_row list"
  names :: "name_row list"
  webhook_calls :: "transaction_row list"
  broadcasts :: "js_object list"
  names_purchased :: nat

text \<open>The next auto-increment key: one more than the largest key in use.\<close>

definition next_id :: "nat list \<Rightarrow> nat" where
  "next_id ids = Suc (fold max ids 0)"

text \<open>The row with a given primary key, and its balance: what a query of the table returns.\<close>

definition find_by_id :: "address_row list \<Rightarrow> nat \<Rightarrow> address_row option" where
  "find_by_id rows i = find (\<lambda>r. addr_id r = i) rows"

definition balance_of :: "address_row list \<Rightarrow> nat \<Rightarrow> int option" where
  "balance_of rows i = map_option balance (find_by_id rows i)"

text \<open>
  \<^verbatim>\<open>instance.increment({ col: n, ... })\<close> and \<^verbatim>\<open>instance.decrement({ col: n, ... })\<close>
  of the persistence library: one UPDATE that adds to (subtracts from) the named columns
  of the row whose primary key is the instance's, whatever the values the instance holds
  in memory and whatever the result.
\<close>

datatype column = Balance | Totalin | Totalout

fun add_to_column :: "column \<times> int \<Rightarrow> address_row \<Rightarrow> address_row" where
  "add_to_column (Balance, n) r = r\<lparr>balance := balance r + n\<rparr>"
| "add_to_column (Totalin, n) r = r\<lparr>totalin := totalin r + n\<rparr>"
| "add_to_column (Totalout, n) r = r\<lparr>totalout := totalout r + n\<rparr>"

definition increment ::
  "address_row \<Rightarrow> (column \<times> int) list \<Rightarrow> address_row list \<Rightarrow> address_row list" where
  "increment inst cols rows =
     map (\<lambda>r. if addr_id r = addr_id inst then fold add_to_column cols r else r) rows"

definition decrement ::
  "address_row \<Rightarrow> (column \<times> int) list \<Rightarrow> address_row list \<Rightarrow> address_row list" where
  "decrement inst cols rows = increment inst (map (\<lambda>(c, n). (c, - n)) cols) rows"

text \<open>\<^verbatim>\<open>schemas.address.create({ ... })\<close>: a new row under the next key.\<close>

definition address_create ::
  "string \<Rightarrow> nat \<Rightarrow> int \<Rightarrow> int \<Rightarrow> int \<Rightarrow> address_row list \<Rightarrow> address_row list" where
  "address_create adr seen bal tin tout rows =
     rows @ [\<lparr>addr_id = next_id (map addr_id rows), address = adr, firstseen = seen,
              balance = bal, totalin = tin, totalout = tout\<rparr>]"

text \<open>
  Modelled from the spec: \<^verbatim>\<open>addresses.getAddress\<close> (addresses.js is not among the
  sources), the persistence collaborator's "read current balance/record": the account
  stored under the given address, if there is one.
\<close>

definition getAddress :: "server \<Rightarrow> string \<Rightarrow> address_row option" where
  "getAddress s adr = find (\<lambda>r. address r = adr) (addresses s)"

text \<open>\<^verbatim>\<open>String.prototype.toLowerCase\<close>, on ASCII strings.\<close>

definition lower_char :: "char \<Rightarrow> char" where
  "lower_char c =
     (case map_of (zip ''ABCDEFGHIJKLMNOPQRSTUVWXYZ'' ''abcdefghijklmnopqrstuvwxyz'') c of
        None \<Rightarrow> c
      | Some l \<Rightarrow> l)"

definition toLowerCase :: "string \<Rightarrow> string" where
  "toLowerCase s = map lower_char s"

section \<open>transactions.js\<close>

text \<open>
  \<^verbatim>\<open>Transactions.createTransaction\<close>: the row is created with the fields given and the
  current time, the webhooks are called with it, and the promise resolves with it.
\<close>

definition createTransaction ::
  "nat \<Rightarrow> server \<Rightarrow> string \<Rightarrow> string \<Rightarrow> int \<Rightarrow> string option \<Rightarrow> string option
     \<Rightarrow> server \<times> transaction_row" where
  "createTransaction now s to frm val nam op =
     (let transaction = \<lparr>tx_id = next_id (map tx_id (transactions s)), tx_to = to,
                          tx_from = frm, tx_value = val, tx_name = nam, tx_time = now,
                          tx_op = op\<rparr>;
          s1 = s\<lparr>transactions := transactions s @ [transaction]\<rparr>;
          s2 = s1\<lparr>webhook_calls := webhook_calls s1 @ [transaction]\<rparr>
      in (s2, transaction))"

text \<open>
  \<^verbatim>\<open>Transactions.pushTransaction\<close>. The recipient is looked up first; then the four
  operations are started in the order of the source, and the promise resolves with the
  third result, the transaction. Nothing in the function compares \<open>amount\<close> with zero or
  with the sender's balance. For a recipient that exists, the source increments the
  columns \<^verbatim>\<open>balance\<close> and \<^verbatim>\<open>totalout\<close>.
\<close>

definition pushTransaction ::
  "nat \<Rightarrow> server \<Rightarrow> address_row \<Rightarrow> string \<Rightarrow> int \<Rightarrow> string option
     \<Rightarrow> server \<times> transaction_row" where
  "pushTransaction now s sender recipientAddress amount metadata =
     (let recipient = getAddress s recipientAddress;
          s1 = s\<lparr>addresses := decrement sender [(Balance, amount)] (addresses s)\<rparr>;
          s2 = s1\<lparr>addresses := increment sender [(Totalout, amount)] (addresses s1)\<rparr>;
          (s3, transaction) =
             createTransaction now s2 recipientAddress (address sender) amount None metadata;
          s4 = (case recipient of
                  None \<Rightarrow>
                    s3\<lparr>addresses := address_create (toLowerCase recipientAddress) now
                                       amount amount 0 (addresses s3)\<rparr>
                | Some r \<Rightarrow>
                    s3\<lparr>addresses := increment r [(Balance, amount), (Totalout, amount)]
                                       (addresses s3)\<rparr>)
      in (s4, transaction))"

section \<open>names.js\<close>

text \<open>The constant \<^verbatim>\<open>constants.nameCost\<close> is a parameter: constants.js is not among the sources.\<close>

record constants =
  nameCost :: int

definition getNameCost :: "constants \<Rightarrow> int" where
  "getNameCost c = nameCost c"

text \<open>
  \<^verbatim>\<open>Names.nameToJSON\<close>. In \<^verbatim>\<open>name.transferred || null\<close> a date is an object and
  always truthy, so only null gives null; \<^verbatim>\<open>name.unpaid || 0\<close> replaces a falsy
  number, which is 0, by 0; \<^verbatim>\<open>name.a\<close> is copied as it is, null, undefined or a
  string.
\<close>

definition nameToJSON :: "name_row \<Rightarrow> js_object" where
  "nameToJSON n =
     [(''name'', JStr (nm_name n)),
      (''owner'', JStr (nm_owner n)),
      (''original_owner'', JStr (nm_original_owner n)),
      (''registered'', JNum (int (nm_registered n))),
      (''updated'', JNum (int (nm_updated n))),
      (''transferred'',
         (case nm_transferred n of None \<Rightarrow> JNull | Some t \<Rightarrow> JNum (int t))),
      (''a'', nm_a n),
      (''unpaid'', JNum (if nm_unpaid n = 0 then 0 else nm_unpaid n))]"

text \<open>
  \<^verbatim>\<open>Names.createName\<close>: the row is created, the counter incremented, the event
  broadcast, and the row returned. No \<^verbatim>\<open>a\<close> is given to \<^verbatim>\<open>schemas.name.create\<close>,
  so the property is undefined on the row that is returned.
\<close>

definition createName ::
  "constants \<Rightarrow> nat \<Rightarrow> server \<Rightarrow> string \<Rightarrow> string \<Rightarrow> server \<times> name_row" where
  "createName c now s nam ownr =
     (let dbName = \<lparr>nm_id = next_id (map nm_id (names s)), nm_name = nam, nm_owner = ownr,
                     nm_original_owner = ownr, nm_registered = now, nm_updated = now,
                     nm_transferred = None, nm_a = JUndefined, nm_unpaid = getNameCost c\<rparr>;
          s1 = s\<lparr>names := names s @ [dbName]\<rparr>;
          s2 = s1\<lparr>names_purchased := Suc (names_purchased s1)\<rparr>;
          s3 = s2\<lparr>broadcasts := broadcasts s2 @
                  [[(''type'', JStr ''event''), (''event'', JStr ''name''),
                    (''name'', JObj (nameToJSON dbName))]]\<rparr>
      in (s3, dbName))"

section \<open>routes/work.js\<close>

text \<open>
  The handler of \<^verbatim>\<open>GET /work\<close>. The state of the mining collaborator (krist.js, not
  among the sources) is a value of an arbitrary type, read by \<^verbatim>\<open>krist.getWork\<close>; the
  handler returns that state as it leaves it, and the response.
\<close>

definition get_work :: "('k \<Rightarrow> int) \<Rightarrow> 'k \<Rightarrow> response \<Rightarrow> 'k \<times> response" where
  "get_work getWork k res =
     (k, res\<lparr>res_json := Some [(''ok'', JBool True), (''work'', JNum (getWork k))]\<rparr>)"

section \<open>The websockets collaborator\<close>







text \<open>
  The socket object of the socket library: its handle, its \<^verbatim>\<open>readyState\<close>, and the
  messages handed to \<^verbatim>\<open>ws.send\<close> so far, in order (\<^verbatim>\<open>JSON.stringify\<close> is left
  implicit: a message is recorded as the object that is serialised).
\<close>

datatype ready_state = CONNECTING | OPEN | CLOSING | CLOSED









section \<open>routes/websockets.js\<close>







section \<open>Concrete values\<close>

text \<open>
  Values for evaluating the operations on concrete input: a ledger of two accounts, error
  objects without a message, an environment, a token store holding one guest token, a
  socket, an authentication that accepts one secret, and a message of the day.
\<close>

definition alice :: address_row where
  "alice = \<lparr>addr_id = 1, address = ''kalice'', firstseen = 0, balance = 5, totalin = 5,
             totalout = 0\<rparr>"

definition bob :: address_row where
  "bob = \<lparr>addr_id = 2, address = ''kbob'', firstseen = 0, balance = 0, totalin = 0,
           totalout = 0\<rparr>"

definition ledger0 :: server where
  "ledger0 = \<lparr>addresses = [alice, bob], transactions = [], names = [], webhook_calls = [],
               broadcasts = [], names_purchased = 0\<rparr>"










section \<open>Properties of utils.js\<close>

lemma errorToJSON_uncaught:
  "errorToJSON (UncaughtError sc st) =
     Inr [(''ok'', JBool False), (''error'', JStr ''server_error'')]"
  by (simp add: errorToJSON_def)


lemma errorToJSON_krist_message:
  "truthy_str msg \<Longrightarrow>
   errorToJSON (KristError msg kind sc nfo) = Inl (ReferenceError ''message'')"
  by (simp add: errorToJSON_def)

text \<open>
  Claim C4. The error serialisation is to return \<^verbatim>\<open>{ ok: false, error: kind, ...info }\<close>
  for every recognised error, also for one that carries a message, and never to throw.
  At a recognised error built with a message, \<^verbatim>\<open>new errors.KristError("Invalid
  limit")\<close>, the code raises a ReferenceError instead of returning an object.
\<close>

theorem C4_errorToJSON_message_throws:
  "errorToJSON (KristError_new (Some ''Invalid limit'')) = Inl (ReferenceError ''message'')"
  by (simp add: errorToJSON_def KristError_new_def)

text \<open>
  Claim C10 says that for every request carrying an error to report, \<open>sendErrorToRes\<close>
  responds, with status 200 unless the \<^verbatim>\<open>cc\<close> query parameter is the string
  "undefined". For a recognised error built with a message and a request without
  \<^verbatim>\<open>cc\<close>, the code sets the status 200 and then raises the ReferenceError of
  \<open>errorToJSON\<close> before \<^verbatim>\<open>.json\<close> is called: no response is sent. With \<^verbatim>\<open>cc\<close> equal
  to "undefined" it sets the error's status 500 and raises in the same way.
\<close>

theorem C10_sendErrorToRes_message_no_response:
  "sendErrorToRes \<lparr>query_cc = None, body_privatekey = None\<rparr>
       \<lparr>res_status = 200, res_json = None\<rparr> (KristError_new (Some ''Invalid limit'')) =
     (Some (ReferenceError ''message''), \<lparr>res_status = 200, res_json = None\<rparr>) \<and>
   sendErrorToRes \<lparr>query_cc = Some ''undefined'', body_privatekey = None\<rparr>
       \<lparr>res_status = 200, res_json = None\<rparr> (KristError_new (Some ''Invalid limit'')) =
     (Some (ReferenceError ''message''), \<lparr>res_status = 500, res_json = None\<rparr>)"
  by (simp add: sendErrorToRes_def errorToJSON_def statusCode_or_500_def KristError_new_def)

section \<open>Properties of the ledger operations\<close>

lemma add_to_column_id: "addr_id (add_to_column cn r) = addr_id r"
  by (cases "(cn, r)" rule: add_to_column.cases) simp_all

lemma fold_add_to_column_id: "addr_id (fold add_to_column cols r) = addr_id r"
  by (induction cols arbitrary: r) (simp_all add: add_to_column_id)

lemma find_by_id_increment:
  "find_by_id (increment inst cols rows) i =
     (if i = addr_id inst then map_option (fold add_to_column cols) (find_by_id rows i)
      else find_by_id rows i)"
  by (induction rows) (auto simp: find_by_id_def increment_def fold_add_to_column_id)

lemma find_by_id_append:
  "find_by_id (rows @ [r]) i =
     (case find_by_id rows i of
        Some x \<Rightarrow> Some x
      | None \<Rightarrow> if addr_id r = i then Some r else None)"
  by (induction rows) (auto simp: find_by_id_def)

lemma find_by_id_address_create:
  "find_by_id rows i = Some x \<Longrightarrow>
   find_by_id (address_create adr seen bal tin tout rows) i = Some x"
  by (simp add: address_create_def find_by_id_append)

lemma addresses_pushTransaction:
  "addresses (fst (pushTransaction now s sender rcp amount metadata)) =
     (let rows = increment sender [(Totalout, amount)]
                   (decrement sender [(Balance, amount)] (addresses s))
      in case getAddress s rcp of
           None \<Rightarrow> address_create (toLowerCase rcp) now amount amount 0 rows
         | Some r \<Rightarrow> increment r [(Balance, amount), (Totalout, amount)] rows)"
  by (simp add: pushTransaction_def createTransaction_def Let_def split: option.splits)

lemma snd_pushTransaction:
  "snd (pushTransaction now s sender rcp amount metadata) =
     \<lparr>tx_id = next_id (map tx_id (transactions s)), tx_to = rcp, tx_from = address sender,
      tx_value = amount, tx_name = None, tx_time = now, tx_op = metadata\<rparr>"
  by (simp add: pushTransaction_def createTransaction_def Let_def split: option.splits)

lemma sender_debited:
  assumes "balance_of (addresses s) (addr_id sender) = Some b"
      and "\<And>r. getAddress s rcp = Some r \<Longrightarrow> addr_id r \<noteq> addr_id sender"
  shows "balance_of (addresses (fst (pushTransaction now s sender rcp amount metadata)))
           (addr_id sender) = Some (b - amount)"
proof -
  from assms(1) obtain a
    where a: "find_by_id (addresses s) (addr_id sender) = Some a" "balance a = b"
    by (auto simp: balance_of_def)
  let ?rows = "increment sender [(Totalout, amount)]
                 (decrement sender [(Balance, amount)] (addresses s))"
  have rows: "find_by_id ?rows (addr_id sender) =
                Some (a\<lparr>balance := balance a - amount, totalout := totalout a + amount\<rparr>)"
    using a by (simp add: find_by_id_increment decrement_def)
  show ?thesis
  proof (cases "getAddress s rcp")
    case None
    then show ?thesis
      using find_by_id_address_create [OF rows] a(2)
      by (simp add: addresses_pushTransaction balance_of_def)
  next
    case (Some r)
    with assms(2) have "addr_id r \<noteq> addr_id sender" by simp
    then have "find_by_id (increment r [(Balance, amount), (Totalout, amount)] ?rows)
                 (addr_id sender) = find_by_id ?rows (addr_id sender)"
      by (subst find_by_id_increment) simp
    with Some rows a(2) show ?thesis
      by (simp add: addresses_pushTransaction balance_of_def)
  qed
qed

lemma recipient_credited:
  assumes "getAddress s rcp = Some r"
      and "balance_of (addresses s) (addr_id r) = Some b"
      and "addr_id r \<noteq> addr_id sender"
  shows "balance_of (addresses (fst (pushTransaction now s sender rcp amount metadata)))
           (addr_id r) = Some (b + amount)"
proof -
  from assms(2) obtain x
    where x: "find_by_id (addresses s) (addr_id r) = Some x" "balance x = b"
    by (auto simp: balance_of_def)
  with assms(1,3) show ?thesis
    by (simp add: addresses_pushTransaction balance_of_def find_by_id_increment decrement_def)
qed

text \<open>
  Claim C1, as stated, fails. It says that a transfer of more than the sender's balance
  fails with InsufficientFunds and leaves both balances unchanged. The sender holds 5 and
  sends 10: the operation resolves with the transaction, the sender's balance becomes -5
  and the recipient's becomes 10.
\<close>

theorem C1_pushTransaction_overdraft_counterexample:
  "balance_of (addresses ledger0) (addr_id alice) = Some 5 \<and>
   balance_of (addresses ledger0) (addr_id bob) = Some 0 \<and>
   balance_of (addresses (fst (pushTransaction 7 ledger0 alice ''kbob'' 10 None)))
     (addr_id alice) = Some (- 5) \<and>
   balance_of (addresses (fst (pushTransaction 7 ledger0 alice ''kbob'' 10 None)))
     (addr_id bob) = Some 10 \<and>
   snd (pushTransaction 7 ledger0 alice ''kbob'' 10 None) =
     \<lparr>tx_id = 1, tx_to = ''kbob'', tx_from = ''kalice'', tx_value = 10, tx_name = None,
      tx_time = 7, tx_op = None\<rparr>"
  by (simp add: addresses_pushTransaction snd_pushTransaction balance_of_def find_by_id_def
        getAddress_def increment_def decrement_def ledger0_def alice_def bob_def next_id_def)

text \<open>
  Claim C1, amended. The transfer operation does not validate the amount: for every
  amount, also one that is zero, negative or larger than the sender's balance, it
  resolves with the transaction record of that amount, and the balance of the sender (an
  account of the ledger other than the recipient) is debited by the amount.
\<close>

theorem C1_pushTransaction_always_debits:
  assumes "balance_of (addresses s) (addr_id sender) = Some b"
      and "\<And>r. getAddress s recipientAddress = Some r \<Longrightarrow> addr_id r \<noteq> addr_id sender"
  shows "balance_of
           (addresses (fst (pushTransaction now s sender recipientAddress amount metadata)))
           (addr_id sender) = Some (b - amount) \<and>
         tx_value (snd (pushTransaction now s sender recipientAddress amount metadata)) =
           amount \<and>
         tx_from (snd (pushTransaction now s sender recipientAddress amount metadata)) =
           address sender \<and>
         tx_to (snd (pushTransaction now s sender recipientAddress amount metadata)) =
           recipientAddress"
  using sender_debited [OF assms] by (simp add: snd_pushTransaction)

theorem C1_pushTransaction_always_debits_witness:
  "balance_of (addresses ledger0) (addr_id alice) = Some 5 \<and>
   getAddress ledger0 ''kbob'' = Some bob \<and> addr_id bob \<noteq> addr_id alice \<and>
   balance_of (addresses (fst (pushTransaction 7 ledger0 alice ''kbob'' (- 3) None)))
     (addr_id alice) = Some (5 - (- 3)) \<and>
   tx_value (snd (pushTransaction 7 ledger0 alice ''kbob'' (- 3) None)) = - 3"
proof -
  have b: "balance_of (addresses ledger0) (addr_id alice) = Some 5"
    by (simp add: balance_of_def find_by_id_def ledger0_def alice_def)
  have g: "getAddress ledger0 ''kbob'' = Some bob"
    by (simp add: getAddress_def ledger0_def alice_def bob_def)
  have d: "addr_id bob \<noteq> addr_id alice"
    by (simp add: alice_def bob_def)
  have r: "\<And>r. getAddress ledger0 ''kbob'' = Some r \<Longrightarrow> addr_id r \<noteq> addr_id alice"
    using g d by simp
  show ?thesis
    using C1_pushTransaction_always_debits
            [of ledger0 alice 5 "''kbob''" 7 "- 3" None, OF b r] b g d
    by simp
qed

text \<open>
  Claim C2, as stated, fails when the two accounts are one and the same: the sender is
  debited and then credited as the recipient, so a transfer of 3 from an account holding
  5 to itself leaves its balance at 5, and it has not decreased by 3.
\<close>

theorem C2_pushTransaction_self_transfer_counterexample:
  "getAddress ledger0 ''kalice'' = Some alice \<and>
   balance_of (addresses ledger0) (addr_id alice) = Some 5 \<and> (0::int) < 3 \<and> (3::int) \<le> 5 \<and>
   balance_of (addresses (fst (pushTransaction 7 ledger0 alice ''kalice'' 3 None)))
     (addr_id alice) = Some 5"
  by (simp add: addresses_pushTransaction balance_of_def find_by_id_def
        getAddress_def increment_def decrement_def ledger0_def alice_def bob_def)

text \<open>
  Claim C2, amended. For every two distinct accounts A and B of the ledger and every
  amount \<open>v\<close> with \<open>0 < v \<le> balance(A)\<close>, the transfer from A to the address of B
  decreases the balance of A by exactly \<open>v\<close>, increases the balance of B by exactly
  \<open>v\<close>, and leaves the sum of the two balances unchanged.
\<close>

theorem C2_pushTransaction_conserves:
  assumes "balance_of (addresses s) (addr_id A) = Some bA"
      and "getAddress s recipientAddress = Some B"
      and "balance_of (addresses s) (addr_id B) = Some bB"
      and "addr_id B \<noteq> addr_id A"
      and "0 < v" and "v \<le> bA"
      and "pushTransaction now s A recipientAddress v metadata = (s', t)"
  shows "\<exists>bA' bB'. balance_of (addresses s') (addr_id A) = Some bA' \<and>
                   balance_of (addresses s') (addr_id B) = Some bB' \<and>
                   bA' = bA - v \<and> bB' = bB + v \<and> bA' + bB' = bA + bB"
proof -
  have s': "s' = fst (pushTransaction now s A recipientAddress v metadata)"
    using assms(7) by simp
  have A: "balance_of (addresses s') (addr_id A) = Some (bA - v)"
    unfolding s' using assms(1,2,4) by (intro sender_debited) auto
  have B: "balance_of (addresses s') (addr_id B) = Some (bB + v)"
    unfolding s' using assms(2,3,4) by (intro recipient_credited) auto
  from A B show ?thesis by simp
qed

theorem C2_pushTransaction_conserves_witness:
  "balance_of (addresses ledger0) (addr_id alice) = Some 5 \<and>
   getAddress ledger0 ''kbob'' = Some bob \<and>
   balance_of (addresses ledger0) (addr_id bob) = Some 0 \<and>
   addr_id bob \<noteq> addr_id alice \<and> (0::int) < 3 \<and> (3::int) \<le> 5 \<and>
   (\<exists>bA' bB'.
      balance_of (addresses (fst (pushTransaction 7 ledger0 alice ''kbob'' 3 None)))
        (addr_id alice) = Some bA' \<and>
      balance_of (addresses (fst (pushTransaction 7 ledger0 alice ''kbob'' 3 None)))
        (addr_id bob) = Some bB' \<and>
      bA' = 5 - 3 \<and> bB' = 0 + 3 \<and> bA' + bB' = 5 + 0)"
proof -
  have a: "balance_of (addresses ledger0) (addr_id alice) = Some 5"
    by (simp add: balance_of_def find_by_id_def ledger0_def alice_def)
  have g: "getAddress ledger0 ''kbob'' = Some bob"
    by (simp add: getAddress_def ledger0_def alice_def bob_def)
  have b: "balance_of (addresses ledger0) (addr_id bob) = Some 0"
    by (simp add: balance_of_def find_by_id_def ledger0_def alice_def bob_def)
  have d: "addr_id bob \<noteq> addr_id alice"
    by (simp add: alice_def bob_def)
  have p: "pushTransaction 7 ledger0 alice ''kbob'' 3 None =
             (fst (pushTransaction 7 ledger0 alice ''kbob'' 3 None),
              snd (pushTransaction 7 ledger0 alice ''kbob'' 3 None))"
    by simp
  show ?thesis
    using C2_pushTransaction_conserves [OF a g b d _ _ p] a g b d by simp
qed

text \<open>
  Claim C3 says that a recipient account that already exists has its balance and its
  totalIn credited by the amount. The code credits the balance and adds the amount to the
  recipient's totalout instead: after a transfer of 3 to an existing account whose
  totalin and totalout are 0, its totalin is still 0 and its totalout is 3. (The branch
  that creates a missing recipient sets totalin to the amount and totalout to 0.)
\<close>

theorem C3_pushTransaction_existing_recipient_totalout:
  "getAddress ledger0 ''kbob'' = Some bob \<and> totalin bob = 0 \<and> totalout bob = 0 \<and>
   find_by_id (addresses (fst (pushTransaction 7 ledger0 alice ''kbob'' 3 None))) (addr_id bob) =
     Some (bob\<lparr>balance := 3, totalin := 0, totalout := 3\<rparr>)"
  by (simp add: addresses_pushTransaction find_by_id_def
        getAddress_def increment_def decrement_def ledger0_def alice_def bob_def)

text \<open>
  Claim C8. Every call of the system-transaction operation creates a transaction record
  with exactly the fields given and the current time, hands that record to the webhook
  collaborator, returns it, and leaves every account (balance, totalin, totalout)
  unchanged.
\<close>

theorem C8_createTransaction_frame:
  "(case createTransaction now s to frm val nam op of
      (s', t) \<Rightarrow>
        t = \<lparr>tx_id = next_id (map tx_id (transactions s)), tx_to = to, tx_from = frm,
             tx_value = val, tx_name = nam, tx_time = now, tx_op = op\<rparr> \<and>
        transactions s' = transactions s @ [t] \<and>
        webhook_calls s' = webhook_calls s @ [t] \<and>
        addresses s' = addresses s \<and>
        names s' = names s \<and> broadcasts s' = broadcasts s)"
  by (simp add: createTransaction_def Let_def)

text \<open>
  Claim C5. The name record created for name \<open>n\<close> and owner \<open>o\<close> has \<open>unpaid\<close> equal to
  the configured registration cost, owner and original owner \<open>o\<close> and no transfer date;
  it is stored, a \<^verbatim>\<open>name\<close> event carrying the record is broadcast, and the record is
  returned.
\<close>

theorem C5_createName_record:
  "(case createName c now s n ownr of
      (s', r) \<Rightarrow>
        nm_name r = n \<and> nm_owner r = ownr \<and> nm_original_owner r = ownr \<and>
        nm_transferred r = None \<and> nm_unpaid r = nameCost c \<and>
        names s' = names s @ [r] \<and>
        broadcasts s' = broadcasts s @
          [[(''type'', JStr ''event''), (''event'', JStr ''name''),
            (''name'', JObj (nameToJSON r))]] \<and>
        map_of (nameToJSON r) ''name'' = Some (JStr n) \<and>
        map_of (nameToJSON r) ''owner'' = Some (JStr ownr) \<and>
        map_of (nameToJSON r) ''original_owner'' = Some (JStr ownr) \<and>
        map_of (nameToJSON r) ''transferred'' = Some JNull \<and>
        map_of (nameToJSON r) ''unpaid'' = Some (JNum (nameCost c)))"
  by (simp add: createName_def getNameCost_def nameToJSON_def Let_def)


section \<open>Properties of the routes\<close>

text \<open>
  Claim C9. For every request, the handler of the work query responds with exactly
  \<^verbatim>\<open>{ ok: true, work: w }\<close>, where \<open>w\<close> is the value that the mining collaborator
  returns, unmodified; the state of the collaborator and the status of the response are
  as before.
\<close>

theorem C9_get_work_response:
  "(case get_work getWork k res of
      (k', res') \<Rightarrow>
        k' = k \<and> res_status res' = res_status res \<and>
        res_json res' = Some [(''ok'', JBool True), (''work'', JNum (getWork k))])"
  by (simp add: get_work_def)




end
